theory Spec2Isabelle
  imports Main
begin

section \<open>Errors and imported constants\<close>

text \<open>
  The code errors of the imported \<open>errs\<close> package that the three source files use.
  \<open>Wrap cls msg\<close> is \<open>errs.cls.Wrap(msg)\<close>; a call \<open>Wrap()\<close> with no message has
  the empty message. \<open>errNoOfflinePusher\<close> is the sentinel of the push package, which
  \<open>PushMsg\<close> compares by identity; every other error value is an \<open>OtherError\<close>.
\<close>

datatype err_class = ErrArgs | ErrTokenUnknown | ErrTokenNotExist | ErrTokenKicked | ErrNoPermission

datatype error = Wrap err_class string | errNoOfflinePusher | OtherError string

text \<open>
  The values of the imported \<open>constant\<close> package are not part of the sources at hand,
  so they are taken as a parameter: the header field of the token, the two context keys,
  the two token states the middleware compares with, the session type of a super group,
  the option key of sender-sync, and the function naming a platform.
\<close>

record constants =
  Token :: string
  OpUserPlatform :: string
  OpUserID :: string
  NormalToken :: int
  KickedToken :: int
  SuperGroupChatType :: int
  IsSenderSync :: string
  PlatformIDToName :: "int \<Rightarrow> string"

section \<open>pkg/authverify/token.go\<close>

record GlobalConfig =
  config_Secret :: string
  Manager_UserID :: "string list"
  IMAdmin_UserID :: "string list"

text \<open>
  \<open>Secret\<close> returns the key function handed to the token decoder: whatever the
  token, it yields the bytes of the secret and no error.
\<close>

definition Secret :: "string \<Rightarrow> 'j \<Rightarrow> error + string" where
  "Secret secret = (\<lambda>token. Inr secret)"

text \<open>
  \<open>mcontext.GetOpUserID\<close> and \<open>utils.IsContain\<close> belong to an imported library:
  both are parameters of the three checks below (\<open>GetOpUserID\<close> reads the operating
  user out of a context of any type \<open>'c\<close>).
\<close>

definition IsAppManagerUid ::
  "('c \<Rightarrow> string) \<Rightarrow> (string \<Rightarrow> string list \<Rightarrow> bool) \<Rightarrow> 'c \<Rightarrow> GlobalConfig \<Rightarrow> bool" where
  "IsAppManagerUid GetOpUserID IsContain ctx config =
     ((length (Manager_UserID config) > 0 \<and> IsContain (GetOpUserID ctx) (Manager_UserID config)) \<or>
      IsContain (GetOpUserID ctx) (IMAdmin_UserID config))"

text \<open>The result \<open>None\<close> is Go's \<open>nil\<close> error.\<close>

definition CheckAdmin ::
  "('c \<Rightarrow> string) \<Rightarrow> (string \<Rightarrow> string list \<Rightarrow> bool) \<Rightarrow> 'c \<Rightarrow> GlobalConfig \<Rightarrow> error option" where
  "CheckAdmin GetOpUserID IsContain ctx config =
     (if length (Manager_UserID config) > 0 \<and> IsContain (GetOpUserID ctx) (Manager_UserID config)
      then None
      else if IsContain (GetOpUserID ctx) (IMAdmin_UserID config)
      then None
      else Some (Wrap ErrNoPermission (''user '' @ GetOpUserID ctx @ '' is not admin userID'')))"

definition CheckIMAdmin ::
  "('c \<Rightarrow> string) \<Rightarrow> (string \<Rightarrow> string list \<Rightarrow> bool) \<Rightarrow> 'c \<Rightarrow> GlobalConfig \<Rightarrow> error option" where
  "CheckIMAdmin GetOpUserID IsContain ctx config =
     (if IsContain (GetOpUserID ctx) (IMAdmin_UserID config)
      then None
      else if length (Manager_UserID config) > 0 \<and> IsContain (GetOpUserID ctx) (Manager_UserID config)
      then None
      else Some (Wrap ErrNoPermission (''user '' @ GetOpUserID ctx @ '' is not CheckIMAdmin userID'')))"

section \<open>The push server: PushMsg\<close>

record sdkws_MsgData =
  SendID :: string
  RecvID :: string
  GroupID :: string
  SessionType :: int
  Options :: "string \<rightharpoonup> bool"

record PushMsgReq =
  MsgData :: sdkws_MsgData

datatype PushMsgResp = PushMsgResp

text \<open>
  The two methods of the pusher that \<open>PushMsg\<close> delegates to. They act on the world
  (sessions, the offline provider), a state of any type \<open>'s\<close> that they take and
  return, and report Go's error (\<open>None\<close> is \<open>nil\<close>).
\<close>

record 's Pusher =
  Push2SuperGroup :: "string \<Rightarrow> sdkws_MsgData \<Rightarrow> 's \<Rightarrow> error option \<times> 's"
  Push2User :: "string list \<Rightarrow> sdkws_MsgData \<Rightarrow> 's \<Rightarrow> error option \<times> 's"

record 's pushServer =
  pusher :: "'s Pusher"

text \<open>
  The recipient list that the default branch of \<open>PushMsg\<close> builds by appending to the
  empty \<open>pushUserIDList\<close>. \<open>utils.GetSwitchFromOptions\<close> is imported, hence a
  parameter of \<open>PushMsg\<close>; what the library's function computes is defined after it.
\<close>

definition pushUserIDList ::
  "constants \<Rightarrow> ((string \<rightharpoonup> bool) \<Rightarrow> string \<Rightarrow> bool) \<Rightarrow> sdkws_MsgData \<Rightarrow> string list" where
  "pushUserIDList k GetSwitchFromOptions msg =
     (let isSenderSync = GetSwitchFromOptions (Options msg) (IsSenderSync k) in
      if \<not> isSenderSync then [] @ [RecvID msg]
      else [] @ [RecvID msg, SendID msg])"

text \<open>
  The \<open>switch\<close> of \<open>PushMsg\<close> on the session type: the one call of the pusher, with
  its error and the world it leaves.
\<close>

definition PushMsg_switch ::
  "constants \<Rightarrow> ((string \<rightharpoonup> bool) \<Rightarrow> string \<Rightarrow> bool) \<Rightarrow> 's pushServer \<Rightarrow> PushMsgReq \<Rightarrow> 's
     \<Rightarrow> error option \<times> 's" where
  "PushMsg_switch k GetSwitchFromOptions r pbData s =
     (if SessionType (MsgData pbData) = SuperGroupChatType k
      then Push2SuperGroup (pusher r) (GroupID (MsgData pbData)) (MsgData pbData) s
      else Push2User (pusher r)
             (pushUserIDList k GetSwitchFromOptions (MsgData pbData)) (MsgData pbData) s)"

text \<open>
  \<open>PushMsg\<close> returns Go's pair of response and error as a sum, the warnings it
  logged, and the world after the pusher's call.
\<close>

definition PushMsg ::
  "constants \<Rightarrow> ((string \<rightharpoonup> bool) \<Rightarrow> string \<Rightarrow> bool) \<Rightarrow> 's pushServer \<Rightarrow> PushMsgReq \<Rightarrow> 's
     \<Rightarrow> (error + PushMsgResp) \<times> error list \<times> 's" where
  "PushMsg k GetSwitchFromOptions r pbData s =
     (let (err, s') = PushMsg_switch k GetSwitchFromOptions r pbData s
      in case err of
           Some e \<Rightarrow>
             if e \<noteq> errNoOfflinePusher then (Inl e, [], s')
             else (Inr PushMsgResp, [e], s')
         | None \<Rightarrow> (Inr PushMsgResp, [], s'))"

text \<open>
  A pusher that only records its calls, in order, and answers each with the error that
  \<open>res\<close> gives for it: the world is the list of calls made so far.
\<close>

datatype pusher_call =
  Call_Push2SuperGroup string sdkws_MsgData
| Call_Push2User "string list" sdkws_MsgData

definition recording_pusher :: "(pusher_call \<Rightarrow> error option) \<Rightarrow> (pusher_call list) Pusher" where
  "recording_pusher res =
     \<lparr>Push2SuperGroup = (\<lambda>groupID msg s.
          (res (Call_Push2SuperGroup groupID msg), s @ [Call_Push2SuperGroup groupID msg])),
      Push2User = (\<lambda>userIDs msg s.
          (res (Call_Push2User userIDs msg), s @ [Call_Push2User userIDs msg]))\<rparr>"

text \<open>
  \<open>utils.GetSwitchFromOptions\<close> as the imported library has it (its source is not
  among the sources at hand): a switch is on unless the options hold its key with the
  value false. A nil map and a map without the key both read true; a nil map is the
  empty map here.
\<close>

definition GetSwitchFromOptions :: "(string \<rightharpoonup> bool) \<Rightarrow> string \<Rightarrow> bool" where
  "GetSwitchFromOptions options key =
     (case options key of None \<Rightarrow> True | Some flag \<Rightarrow> flag)"

section \<open>The API router: the request context\<close>

text \<open>
  The part of \<open>gin.Context\<close> that the middleware reads and writes: the request's method
  and header, the context keys, and the index of the running handler in the chain.
  Three more fields observe the effects: \<open>written\<close> are the error responses written by
  \<open>apiresp.GinError\<close>, \<open>logged\<close> the warnings given to \<open>log.ZWarn\<close>, and \<open>handled\<close> has
  one entry, the keys the route's handler could read, for every run of that handler.
\<close>

record Context =
  Method :: string
  Header :: "string \<rightharpoonup> string"
  Keys :: "string \<rightharpoonup> string"
  index :: int
  written :: "error list"
  logged :: "error list"
  handled :: "(string \<rightharpoonup> string) list"

definition MethodPost :: string where
  "MethodPost = ''POST''"

text \<open>\<open>Header.Get\<close> yields the empty string for a field that is not there.\<close>

definition Header_Get :: "(string \<rightharpoonup> string) \<Rightarrow> string \<Rightarrow> string" where
  "Header_Get h key = (case h key of None \<Rightarrow> '''' | Some v \<Rightarrow> v)"

definition GinError :: "Context \<Rightarrow> error \<Rightarrow> Context" where
  "GinError c err = c\<lparr>written := written c @ [err]\<rparr>"

definition ZWarn :: "Context \<Rightarrow> error \<Rightarrow> Context" where
  "ZWarn c err = c\<lparr>logged := logged c @ [err]\<rparr>"

definition Set_key :: "Context \<Rightarrow> string \<Rightarrow> string \<Rightarrow> Context" where
  "Set_key c key v = c\<lparr>Keys := (Keys c)(key \<mapsto> v)\<rparr>"

definition abortIndex :: int where
  "abortIndex = 63"

definition Abort :: "Context \<Rightarrow> Context" where
  "Abort c = c\<lparr>index := abortIndex\<rparr>"

text \<open>
  A gated route runs the chain \<open>[ParseToken, handler]\<close> (positions 0 and 1, counted from
  the middleware; what the router installs before it is left out). The route's own
  handler is the last of the chain and is seen only through \<open>handled\<close>.
\<close>

definition handler :: "Context \<Rightarrow> Context" where
  "handler c = c\<lparr>handled := handled c @ [Keys c]\<rparr>"

text \<open>
  gin's \<open>Next\<close> is \<open>c.index++; for c.index < len(handlers) { handlers[c.index](c); c.index++ }\<close>.
  \<open>run_handlers\<close> is that loop for an index of at least 1 in the chain of length 2: at
  index 1 the handler runs once, the index becomes 2 and the loop ends; from 2 on
  nothing runs.
\<close>

definition run_handlers :: "Context \<Rightarrow> Context" where
  "run_handlers c =
     (if index c = 1 then (let c' = handler c in c'\<lparr>index := index c' + 1\<rparr>) else c)"

definition Next :: "Context \<Rightarrow> Context" where
  "Next c = run_handlers (c\<lparr>index := index c + 1\<rparr>)"

section \<open>The API router: GinParseToken\<close>

record Claims =
  UserID :: string
  PlatformID :: int

text \<open>
  What \<open>GinParseToken\<close> calls outside the sources at hand. The decoder
  \<open>tokenverify.GetClaimFromToken\<close> is imported, hence a parameter. The auth database
  answers a lookup with the tokens of a user on a platform and their states (a Go map,
  here the list of its entries) or with an error.
\<close>

record AuthDatabase =
  GetTokensWithoutError :: "string \<Rightarrow> int \<Rightarrow> error + (string \<times> int) list"

definition GinParseToken ::
  "constants \<Rightarrow> (string \<Rightarrow> ('j \<Rightarrow> error + string) \<Rightarrow> error + Claims) \<Rightarrow> AuthDatabase
     \<Rightarrow> GlobalConfig \<Rightarrow> Context \<Rightarrow> Context" where
  "GinParseToken k GetClaimFromToken dataBase config c =
     (if Method c = MethodPost then
        (let token = Header_Get (Header c) (Token k) in
         if token = '''' then
           Abort (GinError (ZWarn c (Wrap ErrArgs ''header must have token''))
                    (Wrap ErrArgs ''header must have token''))
         else
           case GetClaimFromToken token (Secret (config_Secret config)) of
             Inl err \<Rightarrow>
               Abort (GinError (ZWarn c (Wrap ErrTokenUnknown '''')) (Wrap ErrTokenUnknown ''''))
           | Inr claims \<Rightarrow>
               (case GetTokensWithoutError dataBase (UserID claims) (PlatformID claims) of
                  Inl err \<Rightarrow> Abort (GinError c (Wrap ErrTokenNotExist ''''))
                | Inr m \<Rightarrow>
                    if length m = 0 then Abort (GinError c (Wrap ErrTokenNotExist ''''))
                    else
                      (case map_of m token of
                         Some v \<Rightarrow>
                           if v = NormalToken k then
                             Next (Set_key
                                     (Set_key c (OpUserPlatform k)
                                        (PlatformIDToName k (PlatformID claims)))
                                     (OpUserID k) (UserID claims))
                           else if v = KickedToken k then
                             Abort (GinError c (Wrap ErrTokenKicked ''''))
                           else Abort (GinError c (Wrap ErrTokenUnknown ''''))
                       | None \<Rightarrow> Abort (GinError c (Wrap ErrTokenNotExist '''')))))
      else c)"

text \<open>
  Serving a call to a gated route: the engine resets the index and calls \<open>Next\<close>, which
  runs \<open>ParseToken\<close> at index 0, adds one to the index it left, and goes on with the
  loop.
\<close>

definition serve ::
  "constants \<Rightarrow> (string \<Rightarrow> ('j \<Rightarrow> error + string) \<Rightarrow> error + Claims) \<Rightarrow> AuthDatabase
     \<Rightarrow> GlobalConfig \<Rightarrow> Context \<Rightarrow> Context" where
  "serve k GetClaimFromToken dataBase config c =
     (let c' = GinParseToken k GetClaimFromToken dataBase config (c\<lparr>index := 0\<rparr>)
      in run_handlers (c'\<lparr>index := index c' + 1\<rparr>))"

section \<open>The gate as the specification words it\<close>

text \<open>
  The token check in the words of the specification, steps 1 to 3 of the middleware's
  contract: a token is presented, its claims decode, and the store's answer for the
  claimed user and platform holds the token in state Normal. The result is the resolved
  identity when the check accepts, \<open>None\<close> when it rejects.
\<close>

definition token_check ::
  "constants \<Rightarrow> (string \<Rightarrow> ('j \<Rightarrow> error + string) \<Rightarrow> error + Claims) \<Rightarrow> AuthDatabase
     \<Rightarrow> GlobalConfig \<Rightarrow> Context \<Rightarrow> Claims option" where
  "token_check k GetClaimFromToken dataBase config c =
     (let token = Header_Get (Header c) (Token k) in
      if token = '''' then None
      else case GetClaimFromToken token (Secret (config_Secret config)) of
             Inl err \<Rightarrow> None
           | Inr claims \<Rightarrow>
               (case GetTokensWithoutError dataBase (UserID claims) (PlatformID claims) of
                  Inl err \<Rightarrow> None
                | Inr m \<Rightarrow>
                    if map_of m token = Some (NormalToken k) then Some claims else None))"

text \<open>Step 4: the context keys with the platform name and the user bound.\<close>

definition bound_keys ::
  "constants \<Rightarrow> Claims \<Rightarrow> (string \<rightharpoonup> string) \<Rightarrow> (string \<rightharpoonup> string)" where
  "bound_keys k claims keys =
     keys(OpUserPlatform k \<mapsto> PlatformIDToName k (PlatformID claims),
          OpUserID k \<mapsto> UserID claims)"

section \<open>Concrete inputs\<close>

definition example_constants :: constants where
  "example_constants =
     \<lparr>Token = ''token'', OpUserPlatform = ''platform'', OpUserID = ''opUserID'',
      NormalToken = 0, KickedToken = 2, SuperGroupChatType = 3,
      IsSenderSync = ''senderSync'',
      PlatformIDToName = (\<lambda>p. if p = 1 then ''IOS'' else if p = 2 then ''Android'' else '''')\<rparr>"

definition example_config :: GlobalConfig where
  "example_config =
     \<lparr>config_Secret = ''openIM123'', Manager_UserID = [''openIM123456''],
      IMAdmin_UserID = [''imAdmin'']\<rparr>"

definition example_IsContain :: "string \<Rightarrow> string list \<Rightarrow> bool" where
  "example_IsContain target xs = (target \<in> set xs)"

definition example_msg :: "int \<Rightarrow> bool \<Rightarrow> sdkws_MsgData" where
  "example_msg st sync =
     \<lparr>SendID = ''U1'', RecvID = ''U2'', GroupID = ''G7'', SessionType = st,
      Options = [''senderSync'' \<mapsto> sync]\<rparr>"

text \<open>
  A decoder that knows five tokens: T1, T2 and T3 claim user U9 on platform 2, T7 claims
  U7 and T8 claims U8, both on platform 1. The store holds, for U9 on platform 2, T1
  kicked and T2 normal; it fails for U8 and has nothing for anyone else.
\<close>

definition example_GetClaimFromToken :: "string \<Rightarrow> (unit \<Rightarrow> error + string) \<Rightarrow> error + Claims" where
  "example_GetClaimFromToken token keyFunc =
     (if keyFunc () \<noteq> Inr ''openIM123'' then Inl (OtherError ''signature is invalid'')
      else if token = ''T1'' \<or> token = ''T2'' \<or> token = ''T3''
        then Inr \<lparr>UserID = ''U9'', PlatformID = 2\<rparr>
      else if token = ''T7'' then Inr \<lparr>UserID = ''U7'', PlatformID = 1\<rparr>
      else if token = ''T8'' then Inr \<lparr>UserID = ''U8'', PlatformID = 1\<rparr>
      else Inl (OtherError ''token is malformed''))"

definition example_dataBase :: AuthDatabase where
  "example_dataBase =
     \<lparr>GetTokensWithoutError = (\<lambda>userID platformID.
        if userID = ''U9'' \<and> platformID = 2 then Inr [(''T1'', 2), (''T2'', 0)]
        else if userID = ''U8'' then Inl (OtherError ''connection refused'')
        else Inr [])\<rparr>"

definition empty_dataBase :: AuthDatabase where
  "empty_dataBase = \<lparr>GetTokensWithoutError = (\<lambda>userID platformID. Inr [])\<rparr>"

definition example_call :: "string \<Rightarrow> (string \<rightharpoonup> string) \<Rightarrow> Context" where
  "example_call method header =
     \<lparr>Method = method, Header = header, Keys = Map.empty, index = 0,
      written = [], logged = [], handled = []\<rparr>"

text \<open>A GET call to a gated route that presents T1, the token the store holds as kicked.\<close>

definition kicked_GET_call :: Context where
  "kicked_GET_call = example_call ''GET'' [''token'' \<mapsto> ''T1'']"

text \<open>
  A direct message from U1 to U2 whose options do not hold the sender-sync key, the
  request carrying it, and a push server whose pusher records its calls and reports no
  error.
\<close>

definition unset_sync_msg :: sdkws_MsgData where
  "unset_sync_msg =
     \<lparr>SendID = ''U1'', RecvID = ''U2'', GroupID = '''', SessionType = 1, Options = Map.empty\<rparr>"

definition unset_sync_req :: PushMsgReq where
  "unset_sync_req = \<lparr>MsgData = unset_sync_msg\<rparr>"

definition recording_server :: "(pusher_call list) pushServer" where
  "recording_server = \<lparr>pusher = recording_pusher (\<lambda>call. None)\<rparr>"

section \<open>Auxiliary facts\<close>

lemma Next_at_0:
  "index c = 0 \<Longrightarrow> Next c = c\<lparr>index := 2, handled := handled c @ [Keys c]\<rparr>"
  by (simp add: Next_def run_handlers_def handler_def)

lemma reject_inject: "(Abort (GinError c e) = Abort (GinError c e')) = (e = e')"
proof
  assume "Abort (GinError c e) = Abort (GinError c e')"
  then have "written (Abort (GinError c e)) = written (Abort (GinError c e'))" by simp
  then show "e = e'" by (simp add: Abort_def GinError_def)
qed simp

lemma GinParseToken_POST:
  assumes "Method c = MethodPost" and "index c = 0"
  shows "case token_check k G dataBase config c of
           Some claims \<Rightarrow>
             GinParseToken k G dataBase config c =
               c\<lparr>Keys := bound_keys k claims (Keys c), index := 2,
                  handled := handled c @ [bound_keys k claims (Keys c)]\<rparr>
         | None \<Rightarrow>
             (\<exists>cls msg.
                GinParseToken k G dataBase config c = Abort (GinError c (Wrap cls msg)) \<or>
                GinParseToken k G dataBase config c =
                  Abort (GinError (ZWarn c (Wrap cls msg)) (Wrap cls msg)))"
  using assms
  apply (simp add: GinParseToken_def token_check_def Let_def Next_at_0 Set_key_def bound_keys_def
       split: sum.split option.split)
  apply (auto simp: Next_at_0 Set_key_def)
  done

lemma GinParseToken_other_method:
  "Method c \<noteq> MethodPost \<Longrightarrow> GinParseToken k G dataBase config c = c"
  by (simp add: GinParseToken_def)

lemma token_check_index:
  "token_check k G dataBase config (c\<lparr>index := i\<rparr>) = token_check k G dataBase config c"
  by (simp add: token_check_def)

lemma PushMsg_world:
  "snd (snd (PushMsg k gs r pbData s)) = snd (PushMsg_switch k gs r pbData s)"
  by (simp add: PushMsg_def split: prod.split option.split)

lemma ex_consts:
  "NormalToken example_constants = 0" "KickedToken example_constants = 2"
  "OpUserID example_constants = ''opUserID''" "OpUserPlatform example_constants = ''platform''"
  "PlatformIDToName example_constants 2 = ''Android''"
  by (simp_all add: example_constants_def)

lemma example_decode:
  "example_GetClaimFromToken token (Secret (config_Secret example_config)) =
     (if token = ''T1'' \<or> token = ''T2'' \<or> token = ''T3''
        then Inr \<lparr>UserID = ''U9'', PlatformID = 2\<rparr>
      else if token = ''T7'' then Inr \<lparr>UserID = ''U7'', PlatformID = 1\<rparr>
      else if token = ''T8'' then Inr \<lparr>UserID = ''U8'', PlatformID = 1\<rparr>
      else Inl (OtherError ''token is malformed''))"
  by (simp add: example_GetClaimFromToken_def Secret_def example_config_def)

lemma ex_hdr: "Header_Get (Header (example_call meth [''token'' \<mapsto> t])) (Token example_constants) = t"
  by (simp add: Header_Get_def example_call_def example_constants_def)

lemma ex_no_hdr: "Header_Get (Header (example_call meth Map.empty)) (Token example_constants) = ''''"
  by (simp add: Header_Get_def example_call_def)

lemma ex_post: "Method (example_call ''POST'' h) = MethodPost"
  by (simp add: example_call_def MethodPost_def)

lemma ex_store:
  "GetTokensWithoutError example_dataBase u p =
     (if u = ''U9'' \<and> p = 2 then Inr [(''T1'', 2), (''T2'', 0)]
      else if u = ''U8'' then Inl (OtherError ''connection refused'')
      else Inr [])"
  by (simp add: example_dataBase_def)

lemma ex_token_check:
  "token_check example_constants example_GetClaimFromToken example_dataBase example_config
     (example_call meth [''token'' \<mapsto> t]) =
   (if t = ''T2'' then Some \<lparr>UserID = ''U9'', PlatformID = 2\<rparr> else None)"
  by (simp add: token_check_def ex_hdr example_decode ex_store ex_consts)

lemma example_switch:
  "PushMsg_switch example_constants GetSwitchFromOptions
     \<lparr>pusher = recording_pusher res\<rparr> \<lparr>MsgData = example_msg st sync\<rparr> [] =
   (if st = 3 then (res (Call_Push2SuperGroup ''G7'' (example_msg st sync)),
                    [Call_Push2SuperGroup ''G7'' (example_msg st sync)])
    else if sync then (res (Call_Push2User [''U2'', ''U1''] (example_msg st sync)),
                    [Call_Push2User [''U2'', ''U1''] (example_msg st sync)])
    else (res (Call_Push2User [''U2''] (example_msg st sync)),
                    [Call_Push2User [''U2''] (example_msg st sync)]))"
  by (simp add: PushMsg_switch_def pushUserIDList_def recording_pusher_def example_constants_def
      GetSwitchFromOptions_def example_msg_def)

section \<open>pkg/authverify: the two admin checks\<close>

text \<open>
  Claim C10. For every context and configuration, CheckAdmin returns nil exactly when
  CheckIMAdmin returns nil, and each of them returns nil exactly when IsAppManagerUid is
  true. When they refuse, both refuse with the no-permission class and differ in the
  message only.
\<close>

theorem CheckAdmin_CheckIMAdmin_agree:
  "(CheckAdmin g ic ctx config = None) = (CheckIMAdmin g ic ctx config = None) \<and>
   (CheckAdmin g ic ctx config = None) = IsAppManagerUid g ic ctx config \<and>
   (CheckIMAdmin g ic ctx config = None) = IsAppManagerUid g ic ctx config \<and>
   (\<not> IsAppManagerUid g ic ctx config \<longrightarrow>
      CheckAdmin g ic ctx config =
        Some (Wrap ErrNoPermission (''user '' @ g ctx @ '' is not admin userID'')) \<and>
      CheckIMAdmin g ic ctx config =
        Some (Wrap ErrNoPermission (''user '' @ g ctx @ '' is not CheckIMAdmin userID'')))"
  by (auto simp: CheckAdmin_def CheckIMAdmin_def IsAppManagerUid_def)

theorem CheckAdmin_CheckIMAdmin_agree_witness:
  "CheckAdmin id example_IsContain ''imAdmin'' example_config = None \<and>
   CheckIMAdmin id example_IsContain ''imAdmin'' example_config = None \<and>
   IsAppManagerUid id example_IsContain ''imAdmin'' example_config \<and>
   \<not> IsAppManagerUid id example_IsContain ''U1'' example_config \<and>
   CheckAdmin id example_IsContain ''U1'' example_config =
     Some (Wrap ErrNoPermission ''user U1 is not admin userID'') \<and>
   CheckIMAdmin id example_IsContain ''U1'' example_config =
     Some (Wrap ErrNoPermission ''user U1 is not CheckIMAdmin userID'')"
proof -
  have a: "IsAppManagerUid id example_IsContain ''imAdmin'' example_config"
    by (simp add: IsAppManagerUid_def example_IsContain_def example_config_def)
  have b: "\<not> IsAppManagerUid id example_IsContain ''U1'' example_config"
    by (simp add: IsAppManagerUid_def example_IsContain_def example_config_def)
  show ?thesis
    using a b CheckAdmin_CheckIMAdmin_agree [of id example_IsContain "''imAdmin''" example_config]
      CheckAdmin_CheckIMAdmin_agree [of id example_IsContain "''U1''" example_config]
    by simp
qed

section \<open>PushMsg\<close>

text \<open>
  Claim C7. PushMsg dispatches on the session type of the event: a super-group event
  goes to Push2SuperGroup with the event's group, every other event goes to Push2User with
  the computed list of recipients. The world after PushMsg is the world that this one
  call leaves.
\<close>

theorem PushMsg_dispatch:
  "(SessionType (MsgData pbData) = SuperGroupChatType k \<longrightarrow>
      PushMsg_switch k gs r pbData s =
        Push2SuperGroup (pusher r) (GroupID (MsgData pbData)) (MsgData pbData) s \<and>
      snd (snd (PushMsg k gs r pbData s)) =
        snd (Push2SuperGroup (pusher r) (GroupID (MsgData pbData)) (MsgData pbData) s)) \<and>
   (SessionType (MsgData pbData) \<noteq> SuperGroupChatType k \<longrightarrow>
      PushMsg_switch k gs r pbData s =
        Push2User (pusher r) (pushUserIDList k gs (MsgData pbData)) (MsgData pbData) s \<and>
      snd (snd (PushMsg k gs r pbData s)) =
        snd (Push2User (pusher r) (pushUserIDList k gs (MsgData pbData)) (MsgData pbData) s))"
  by (simp add: PushMsg_world) (simp add: PushMsg_switch_def)

theorem PushMsg_dispatch_witness:
  "SessionType (MsgData \<lparr>MsgData = example_msg 3 True\<rparr>) = SuperGroupChatType example_constants \<and>
   snd (snd (PushMsg example_constants GetSwitchFromOptions
     \<lparr>pusher = recording_pusher (\<lambda>call. None)\<rparr> \<lparr>MsgData = example_msg 3 True\<rparr> [])) =
     [Call_Push2SuperGroup ''G7'' (example_msg 3 True)] \<and>
   SessionType (MsgData \<lparr>MsgData = example_msg 2 True\<rparr>) \<noteq> SuperGroupChatType example_constants \<and>
   snd (snd (PushMsg example_constants GetSwitchFromOptions
     \<lparr>pusher = recording_pusher (\<lambda>call. None)\<rparr> \<lparr>MsgData = example_msg 2 True\<rparr> [])) =
     [Call_Push2User [''U2'', ''U1''] (example_msg 2 True)]"
proof -
  have a: "SessionType (MsgData \<lparr>MsgData = example_msg 3 True\<rparr>) = SuperGroupChatType example_constants"
    by (simp add: example_msg_def example_constants_def)
  have b: "SessionType (MsgData \<lparr>MsgData = example_msg 2 True\<rparr>) \<noteq> SuperGroupChatType example_constants"
    by (simp add: example_msg_def example_constants_def)
  have c: "pushUserIDList example_constants GetSwitchFromOptions (example_msg 2 True) = [''U2'', ''U1'']"
    by (simp add: pushUserIDList_def example_msg_def example_constants_def GetSwitchFromOptions_def)
  have d: "GroupID (example_msg 3 True) = ''G7''" by (simp add: example_msg_def)
  show ?thesis
    using a b c d
      PushMsg_dispatch [of "\<lparr>MsgData = example_msg 3 True\<rparr>" example_constants
        GetSwitchFromOptions "\<lparr>pusher = recording_pusher (\<lambda>call. None)\<rparr>" "[]"]
      PushMsg_dispatch [of "\<lparr>MsgData = example_msg 2 True\<rparr>" example_constants
        GetSwitchFromOptions "\<lparr>pusher = recording_pusher (\<lambda>call. None)\<rparr>" "[]"]
    by (simp add: recording_pusher_def)
qed

text \<open>
  Claim C3 does not hold for an option that is unset: for a direct message whose options
  do not hold the sender-sync key, the list handed to Push2User is the receiver followed
  by the sender, not the receiver alone.
\<close>

theorem PushMsg_unset_sender_sync_counterexample:
  "SessionType (MsgData unset_sync_req) \<noteq> SuperGroupChatType example_constants \<and>
   Options (MsgData unset_sync_req) (IsSenderSync example_constants) = None \<and>
   pushUserIDList example_constants GetSwitchFromOptions (MsgData unset_sync_req) =
     [''U2'', ''U1''] \<and>
   pushUserIDList example_constants GetSwitchFromOptions (MsgData unset_sync_req) \<noteq>
     [RecvID (MsgData unset_sync_req)] \<and>
   PushMsg example_constants GetSwitchFromOptions recording_server unset_sync_req [] =
     (Inr PushMsgResp, [], [Call_Push2User [''U2'', ''U1''] unset_sync_msg])"
  by (simp add: PushMsg_def PushMsg_switch_def pushUserIDList_def GetSwitchFromOptions_def
      unset_sync_req_def unset_sync_msg_def recording_server_def recording_pusher_def
      example_constants_def)

text \<open>
  Claim C3, by the state of the option: for an event that is not a super-group event, the
  list of recipients handed to Push2User is exactly the receiver when the options hold
  the sender-sync key with the value false, and exactly the receiver followed by the
  sender when they hold it with the value true or do not hold it at all. The world after
  PushMsg is the world that this call leaves.
\<close>

theorem PushMsg_direct_recipients:
  assumes "SessionType (MsgData pbData) \<noteq> SuperGroupChatType k"
  shows "(Options (MsgData pbData) (IsSenderSync k) = Some False \<longrightarrow>
            PushMsg_switch k GetSwitchFromOptions r pbData s =
              Push2User (pusher r) [RecvID (MsgData pbData)] (MsgData pbData) s \<and>
            snd (snd (PushMsg k GetSwitchFromOptions r pbData s)) =
              snd (Push2User (pusher r) [RecvID (MsgData pbData)] (MsgData pbData) s)) \<and>
         (Options (MsgData pbData) (IsSenderSync k) = Some True \<or>
          Options (MsgData pbData) (IsSenderSync k) = None \<longrightarrow>
            PushMsg_switch k GetSwitchFromOptions r pbData s =
              Push2User (pusher r) [RecvID (MsgData pbData), SendID (MsgData pbData)]
                (MsgData pbData) s \<and>
            snd (snd (PushMsg k GetSwitchFromOptions r pbData s)) =
              snd (Push2User (pusher r) [RecvID (MsgData pbData), SendID (MsgData pbData)]
                (MsgData pbData) s))"
  using assms
  by (simp add: PushMsg_world)
    (auto simp: PushMsg_switch_def pushUserIDList_def GetSwitchFromOptions_def)

theorem PushMsg_direct_recipients_witness:
  "SessionType (MsgData \<lparr>MsgData = example_msg 1 False\<rparr>) \<noteq> SuperGroupChatType example_constants \<and>
   Options (example_msg 1 False) (IsSenderSync example_constants) = Some False \<and>
   snd (snd (PushMsg example_constants GetSwitchFromOptions
     \<lparr>pusher = recording_pusher (\<lambda>call. None)\<rparr> \<lparr>MsgData = example_msg 1 False\<rparr> [])) =
     [Call_Push2User [''U2''] (example_msg 1 False)] \<and>
   SessionType (MsgData \<lparr>MsgData = example_msg 1 True\<rparr>) \<noteq> SuperGroupChatType example_constants \<and>
   Options (example_msg 1 True) (IsSenderSync example_constants) = Some True \<and>
   snd (snd (PushMsg example_constants GetSwitchFromOptions
     \<lparr>pusher = recording_pusher (\<lambda>call. None)\<rparr> \<lparr>MsgData = example_msg 1 True\<rparr> [])) =
     [Call_Push2User [''U2'', ''U1''] (example_msg 1 True)] \<and>
   SessionType (MsgData \<lparr>MsgData = unset_sync_msg\<rparr>) \<noteq> SuperGroupChatType example_constants \<and>
   Options unset_sync_msg (IsSenderSync example_constants) = None \<and>
   snd (snd (PushMsg example_constants GetSwitchFromOptions
     \<lparr>pusher = recording_pusher (\<lambda>call. None)\<rparr> \<lparr>MsgData = unset_sync_msg\<rparr> [])) =
     [Call_Push2User [''U2'', ''U1''] unset_sync_msg]"
proof -
  have a: "SessionType (MsgData \<lparr>MsgData = example_msg 1 sync\<rparr>) \<noteq> SuperGroupChatType example_constants"
    for sync
    by (simp add: example_msg_def example_constants_def)
  have a': "SessionType (MsgData \<lparr>MsgData = unset_sync_msg\<rparr>) \<noteq> SuperGroupChatType example_constants"
    by (simp add: unset_sync_msg_def example_constants_def)
  have b: "Options (example_msg 1 sync) (IsSenderSync example_constants) = Some sync" for sync
    by (simp add: example_msg_def example_constants_def)
  have c: "Options unset_sync_msg (IsSenderSync example_constants) = None"
    by (simp add: unset_sync_msg_def)
  have d: "RecvID (example_msg 1 sync) = ''U2''" "SendID (example_msg 1 sync) = ''U1''"
    "RecvID unset_sync_msg = ''U2''" "SendID unset_sync_msg = ''U1''" for sync
    by (simp_all add: example_msg_def unset_sync_msg_def)
  show ?thesis
    using a a' b c d
      PushMsg_direct_recipients [OF a [of False],
        of "\<lparr>pusher = recording_pusher (\<lambda>call. None)\<rparr>" "[]"]
      PushMsg_direct_recipients [OF a [of True],
        of "\<lparr>pusher = recording_pusher (\<lambda>call. None)\<rparr>" "[]"]
      PushMsg_direct_recipients [OF a',
        of "\<lparr>pusher = recording_pusher (\<lambda>call. None)\<rparr>" "[]"]
    by (simp add: recording_pusher_def)
qed

text \<open>
  Claim C2. Whatever the one call of the pusher returns decides the result of PushMsg:
  on the no-offline-pusher error PushMsg answers with a response and logs the error; on
  any other error it returns that error and no response; on no error it answers with a
  response.
\<close>

theorem PushMsg_error_policy:
  assumes "PushMsg_switch k gs r pbData s = (err, s')"
  shows "(err = Some errNoOfflinePusher \<longrightarrow>
            PushMsg k gs r pbData s = (Inr PushMsgResp, [errNoOfflinePusher], s')) \<and>
         (\<forall>e. err = Some e \<and> e \<noteq> errNoOfflinePusher \<longrightarrow>
            PushMsg k gs r pbData s = (Inl e, [], s')) \<and>
         (err = None \<longrightarrow> PushMsg k gs r pbData s = (Inr PushMsgResp, [], s'))"
  using assms by (simp add: PushMsg_def)

theorem PushMsg_error_policy_witness:
  "PushMsg example_constants GetSwitchFromOptions
     \<lparr>pusher = recording_pusher (\<lambda>call. Some errNoOfflinePusher)\<rparr>
     \<lparr>MsgData = example_msg 1 False\<rparr> [] =
     (Inr PushMsgResp, [errNoOfflinePusher], [Call_Push2User [''U2''] (example_msg 1 False)]) \<and>
   PushMsg example_constants GetSwitchFromOptions
     \<lparr>pusher = recording_pusher (\<lambda>call. Some (OtherError ''timeout''))\<rparr>
     \<lparr>MsgData = example_msg 3 False\<rparr> [] =
     (Inl (OtherError ''timeout''), [], [Call_Push2SuperGroup ''G7'' (example_msg 3 False)]) \<and>
   PushMsg example_constants GetSwitchFromOptions
     \<lparr>pusher = recording_pusher (\<lambda>call. None)\<rparr>
     \<lparr>MsgData = example_msg 1 True\<rparr> [] =
     (Inr PushMsgResp, [], [Call_Push2User [''U2'', ''U1''] (example_msg 1 True)])"
proof -
  have a: "PushMsg_switch example_constants GetSwitchFromOptions
     \<lparr>pusher = recording_pusher (\<lambda>call. Some errNoOfflinePusher)\<rparr>
     \<lparr>MsgData = example_msg 1 False\<rparr> [] =
     (Some errNoOfflinePusher, [Call_Push2User [''U2''] (example_msg 1 False)])"
    by (simp add: example_switch)
  have b: "PushMsg_switch example_constants GetSwitchFromOptions
     \<lparr>pusher = recording_pusher (\<lambda>call. Some (OtherError ''timeout''))\<rparr>
     \<lparr>MsgData = example_msg 3 False\<rparr> [] =
     (Some (OtherError ''timeout''), [Call_Push2SuperGroup ''G7'' (example_msg 3 False)])"
    by (simp add: example_switch)
  have c: "PushMsg_switch example_constants GetSwitchFromOptions
     \<lparr>pusher = recording_pusher (\<lambda>call. None)\<rparr>
     \<lparr>MsgData = example_msg 1 True\<rparr> [] =
     (None, [Call_Push2User [''U2'', ''U1''] (example_msg 1 True)])"
    by (simp add: example_switch)
  show ?thesis
    using PushMsg_error_policy [OF a] PushMsg_error_policy [OF b] PushMsg_error_policy [OF c]
    by simp
qed

section \<open>GinParseToken on a POST call\<close>

text \<open>
  Claim C5. On a POST call with an empty token header the middleware rejects with
  ErrArgs and aborts, and this result is the same whatever the store is.
\<close>

theorem GinParseToken_missing_token:
  assumes "Method c = MethodPost" and "Header_Get (Header c) (Token k) = ''''"
  shows "GinParseToken k G dataBase config c =
           Abort (GinError (ZWarn c (Wrap ErrArgs ''header must have token''))
                    (Wrap ErrArgs ''header must have token'')) \<and>
         GinParseToken k G dataBase' config c = GinParseToken k G dataBase config c"
  using assms by (simp add: GinParseToken_def)

theorem GinParseToken_missing_token_witness:
  "GinParseToken example_constants example_GetClaimFromToken example_dataBase example_config
     (example_call ''POST'' Map.empty) =
     \<lparr>Method = ''POST'', Header = Map.empty, Keys = Map.empty, index = 63,
      written = [Wrap ErrArgs ''header must have token''],
      logged = [Wrap ErrArgs ''header must have token''], handled = []\<rparr> \<and>
   GinParseToken example_constants example_GetClaimFromToken empty_dataBase example_config
     (example_call ''POST'' Map.empty) =
   GinParseToken example_constants example_GetClaimFromToken example_dataBase example_config
     (example_call ''POST'' Map.empty)"
  using GinParseToken_missing_token [OF ex_post [of Map.empty] ex_no_hdr [of "''POST''"],
      of example_GetClaimFromToken example_dataBase example_config empty_dataBase]
  by (simp add: Abort_def GinError_def ZWarn_def abortIndex_def example_call_def)

text \<open>
  Claim C8. On a POST call whose token is present but does not decode, the middleware
  rejects with ErrTokenUnknown and aborts, and this result is the same whatever the store
  is.
\<close>

theorem GinParseToken_undecodable_token:
  assumes "Method c = MethodPost" and "Header_Get (Header c) (Token k) \<noteq> ''''"
    and "G (Header_Get (Header c) (Token k)) (Secret (config_Secret config)) = Inl err"
  shows "GinParseToken k G dataBase config c =
           Abort (GinError (ZWarn c (Wrap ErrTokenUnknown '''')) (Wrap ErrTokenUnknown '''')) \<and>
         GinParseToken k G dataBase' config c = GinParseToken k G dataBase config c"
  using assms by (simp add: GinParseToken_def)

theorem GinParseToken_undecodable_token_witness:
  "GinParseToken example_constants example_GetClaimFromToken example_dataBase example_config
     (example_call ''POST'' [''token'' \<mapsto> ''junk'']) =
     \<lparr>Method = ''POST'', Header = [''token'' \<mapsto> ''junk''], Keys = Map.empty, index = 63,
      written = [Wrap ErrTokenUnknown ''''], logged = [Wrap ErrTokenUnknown ''''],
      handled = []\<rparr> \<and>
   GinParseToken example_constants example_GetClaimFromToken empty_dataBase example_config
     (example_call ''POST'' [''token'' \<mapsto> ''junk'']) =
   GinParseToken example_constants example_GetClaimFromToken example_dataBase example_config
     (example_call ''POST'' [''token'' \<mapsto> ''junk''])"
proof -
  have n: "Header_Get (Header (example_call ''POST'' [''token'' \<mapsto> ''junk'']))
      (Token example_constants) \<noteq> ''''"
    by (simp add: ex_hdr)
  have d: "example_GetClaimFromToken
      (Header_Get (Header (example_call ''POST'' [''token'' \<mapsto> ''junk''])) (Token example_constants))
      (Secret (config_Secret example_config)) = Inl (OtherError ''token is malformed'')"
    by (simp add: ex_hdr example_decode)
  show ?thesis
    using GinParseToken_undecodable_token [where G = example_GetClaimFromToken,
        OF ex_post [of "[''token'' \<mapsto> ''junk'']"] n d, of example_dataBase empty_dataBase]
    by (simp add: Abort_def GinError_def ZWarn_def abortIndex_def example_call_def)
qed

text \<open>
  Claim C9. On a POST call whose token decodes, an error of the store's lookup is
  rejected with ErrTokenNotExist: the very result of a store that answers with no
  entries.
\<close>

theorem GinParseToken_store_error:
  assumes "Method c = MethodPost" and "Header_Get (Header c) (Token k) \<noteq> ''''"
    and "G (Header_Get (Header c) (Token k)) (Secret (config_Secret config)) = Inr claims"
    and "GetTokensWithoutError dataBase (UserID claims) (PlatformID claims) = Inl err"
    and "GetTokensWithoutError dataBase' (UserID claims) (PlatformID claims) = Inr []"
  shows "GinParseToken k G dataBase config c = Abort (GinError c (Wrap ErrTokenNotExist '''')) \<and>
         GinParseToken k G dataBase config c = GinParseToken k G dataBase' config c"
  using assms by (simp add: GinParseToken_def)

theorem GinParseToken_store_error_witness:
  "GetTokensWithoutError example_dataBase ''U8'' 1 = Inl (OtherError ''connection refused'') \<and>
   GetTokensWithoutError empty_dataBase ''U8'' 1 = Inr [] \<and>
   GinParseToken example_constants example_GetClaimFromToken example_dataBase example_config
     (example_call ''POST'' [''token'' \<mapsto> ''T8'']) =
     \<lparr>Method = ''POST'', Header = [''token'' \<mapsto> ''T8''], Keys = Map.empty, index = 63,
      written = [Wrap ErrTokenNotExist ''''], logged = [], handled = []\<rparr> \<and>
   GinParseToken example_constants example_GetClaimFromToken example_dataBase example_config
     (example_call ''POST'' [''token'' \<mapsto> ''T8'']) =
   GinParseToken example_constants example_GetClaimFromToken empty_dataBase example_config
     (example_call ''POST'' [''token'' \<mapsto> ''T8''])"
proof -
  have n: "Header_Get (Header (example_call ''POST'' [''token'' \<mapsto> ''T8'']))
      (Token example_constants) \<noteq> ''''"
    by (simp add: ex_hdr)
  have d: "example_GetClaimFromToken
      (Header_Get (Header (example_call ''POST'' [''token'' \<mapsto> ''T8''])) (Token example_constants))
      (Secret (config_Secret example_config)) = Inr \<lparr>UserID = ''U8'', PlatformID = 1\<rparr>"
    by (simp add: ex_hdr example_decode)
  have e: "GetTokensWithoutError example_dataBase (UserID \<lparr>UserID = ''U8'', PlatformID = 1\<rparr>)
      (PlatformID \<lparr>UserID = ''U8'', PlatformID = 1\<rparr>) = Inl (OtherError ''connection refused'')"
    by (simp add: ex_store)
  have f: "GetTokensWithoutError empty_dataBase (UserID \<lparr>UserID = ''U8'', PlatformID = 1\<rparr>)
      (PlatformID \<lparr>UserID = ''U8'', PlatformID = 1\<rparr>) = Inr []"
    by (simp add: empty_dataBase_def)
  note t = GinParseToken_store_error [where G = example_GetClaimFromToken,
        OF ex_post [of "[''token'' \<mapsto> ''T8'']"] n d e f]
  show ?thesis
    using e f t [THEN conjunct1] t [THEN conjunct2, symmetric]
    by (simp add: Abort_def GinError_def abortIndex_def example_call_def)
qed

text \<open>
  Claim C1. On a POST call whose token is present and decodes, with the store answering
  the lookup for the claimed user and platform, the store's entry for the token decides:
  no entries at all, or none for this token, rejects with ErrTokenNotExist; the kicked
  state rejects with ErrTokenKicked and not with ErrTokenNotExist; the normal state
  accepts, binding the platform name and the user and going on to the handler. The two
  state constants are taken to differ.
\<close>

theorem GinParseToken_token_state:
  assumes "Method c = MethodPost"
    and "Header_Get (Header c) (Token k) = token" and "token \<noteq> ''''"
    and "G token (Secret (config_Secret config)) = Inr claims"
    and "GetTokensWithoutError dataBase (UserID claims) (PlatformID claims) = Inr m"
    and "NormalToken k \<noteq> KickedToken k"
  shows "(m = [] \<or> map_of m token = None \<longrightarrow>
            GinParseToken k G dataBase config c = Abort (GinError c (Wrap ErrTokenNotExist ''''))) \<and>
         (map_of m token = Some (KickedToken k) \<longrightarrow>
            GinParseToken k G dataBase config c = Abort (GinError c (Wrap ErrTokenKicked '''')) \<and>
            GinParseToken k G dataBase config c \<noteq> Abort (GinError c (Wrap ErrTokenNotExist ''''))) \<and>
         (map_of m token = Some (NormalToken k) \<longrightarrow>
            GinParseToken k G dataBase config c =
              Next (Set_key (Set_key c (OpUserPlatform k) (PlatformIDToName k (PlatformID claims)))
                      (OpUserID k) (UserID claims)))"
  using assms
  by (auto simp: GinParseToken_def reject_inject)

theorem GinParseToken_token_state_witness:
  "GinParseToken example_constants example_GetClaimFromToken example_dataBase example_config
     (example_call ''POST'' [''token'' \<mapsto> ''T7'']) =
     Abort (GinError (example_call ''POST'' [''token'' \<mapsto> ''T7'']) (Wrap ErrTokenNotExist '''')) \<and>
   GinParseToken example_constants example_GetClaimFromToken example_dataBase example_config
     (example_call ''POST'' [''token'' \<mapsto> ''T3'']) =
     Abort (GinError (example_call ''POST'' [''token'' \<mapsto> ''T3'']) (Wrap ErrTokenNotExist '''')) \<and>
   GinParseToken example_constants example_GetClaimFromToken example_dataBase example_config
     (example_call ''POST'' [''token'' \<mapsto> ''T1'']) =
     Abort (GinError (example_call ''POST'' [''token'' \<mapsto> ''T1'']) (Wrap ErrTokenKicked '''')) \<and>
   handled (GinParseToken example_constants example_GetClaimFromToken example_dataBase example_config
     (example_call ''POST'' [''token'' \<mapsto> ''T2''])) =
     [[''platform'' \<mapsto> ''Android'', ''opUserID'' \<mapsto> ''U9'']]"
proof -
  have d: "NormalToken example_constants \<noteq> KickedToken example_constants"
    by (simp add: example_constants_def)
  have n: "''T7'' \<noteq> ''''" "''T3'' \<noteq> ''''" "''T1'' \<noteq> ''''" "''T2'' \<noteq> ''''" by simp_all
  have c7: "example_GetClaimFromToken ''T7'' (Secret (config_Secret example_config)) =
      Inr \<lparr>UserID = ''U7'', PlatformID = 1\<rparr>"
    by (simp add: example_decode)
  have c9: "example_GetClaimFromToken t (Secret (config_Secret example_config)) =
      Inr \<lparr>UserID = ''U9'', PlatformID = 2\<rparr>" if "t = ''T1'' \<or> t = ''T2'' \<or> t = ''T3''" for t
    using that by (simp add: example_decode)
  have s7: "GetTokensWithoutError example_dataBase (UserID \<lparr>UserID = ''U7'', PlatformID = 1\<rparr>)
      (PlatformID \<lparr>UserID = ''U7'', PlatformID = 1\<rparr>) = Inr []"
    by (simp add: ex_store)
  have s9: "GetTokensWithoutError example_dataBase (UserID \<lparr>UserID = ''U9'', PlatformID = 2\<rparr>)
      (PlatformID \<lparr>UserID = ''U9'', PlatformID = 2\<rparr>) = Inr [(''T1'', 2), (''T2'', 0)]"
    by (simp add: ex_store)
  note t7 = GinParseToken_token_state [where G = example_GetClaimFromToken, OF ex_post [of "[''token'' \<mapsto> ''T7'']"]
    ex_hdr [of "''POST''" "''T7''"] n(1) c7 s7 d]
  note t3 = GinParseToken_token_state [where G = example_GetClaimFromToken, OF ex_post [of "[''token'' \<mapsto> ''T3'']"]
    ex_hdr [of "''POST''" "''T3''"] n(2) c9 s9 d]
  note t1 = GinParseToken_token_state [where G = example_GetClaimFromToken, OF ex_post [of "[''token'' \<mapsto> ''T1'']"]
    ex_hdr [of "''POST''" "''T1''"] n(3) c9 s9 d]
  note t2 = GinParseToken_token_state [where G = example_GetClaimFromToken, OF ex_post [of "[''token'' \<mapsto> ''T2'']"]
    ex_hdr [of "''POST''" "''T2''"] n(4) c9 s9 d]
  have k: "index (example_call ''POST'' h) = 0" for h by (simp add: example_call_def)
  show ?thesis
    using t7 t3 t1 t2
    by (simp add: example_constants_def Next_at_0 Set_key_def example_call_def)
qed

text \<open>
  Claim C6. On a POST call the handler runs exactly when the token check accepts. Then
  the call is the one received but for the two keys bound, the handler's run with these
  keys, and the index past the chain. Otherwise the call is the one received but for one
  typed error written (and, on two paths, logged) and the index set to abort: no key is
  set and the handler does not run. In both cases the engine, once the middleware has
  returned, runs the handler no further time.
\<close>

theorem GinParseToken_frame:
  assumes "Method c = MethodPost" and "index c = 0"
  shows "(handled (GinParseToken k G dataBase config c) \<noteq> handled c) =
           (token_check k G dataBase config c \<noteq> None) \<and>
         handled (serve k G dataBase config c) =
           handled (GinParseToken k G dataBase config c) \<and>
         (case token_check k G dataBase config c of
            Some claims \<Rightarrow>
              GinParseToken k G dataBase config c =
                c\<lparr>Keys := bound_keys k claims (Keys c), index := 2,
                   handled := handled c @ [bound_keys k claims (Keys c)]\<rparr>
          | None \<Rightarrow>
              (\<exists>cls msg.
                 GinParseToken k G dataBase config c = Abort (GinError c (Wrap cls msg)) \<or>
                 GinParseToken k G dataBase config c =
                   Abort (GinError (ZWarn c (Wrap cls msg)) (Wrap cls msg))))"
proof -
  have c0: "c\<lparr>index := 0\<rparr> = c"
    using assms(2) by simp
  note p = GinParseToken_POST [OF assms, of k G dataBase config]
  have "(handled (GinParseToken k G dataBase config c) \<noteq> handled c) =
          (token_check k G dataBase config c \<noteq> None)"
    using p by (auto simp: Abort_def GinError_def ZWarn_def split: option.splits)
  moreover have "handled (serve k G dataBase config c) =
          handled (GinParseToken k G dataBase config c)"
    using p
    by (auto simp: serve_def c0 run_handlers_def Abort_def GinError_def ZWarn_def abortIndex_def
        split: option.splits)
  ultimately show ?thesis
    using p by simp
qed

theorem GinParseToken_frame_witness:
  "Method (example_call ''POST'' [''token'' \<mapsto> ''T2'']) = MethodPost \<and>
   index (example_call ''POST'' [''token'' \<mapsto> ''T2'']) = 0 \<and>
   token_check example_constants example_GetClaimFromToken example_dataBase example_config
     (example_call ''POST'' [''token'' \<mapsto> ''T2'']) = Some \<lparr>UserID = ''U9'', PlatformID = 2\<rparr> \<and>
   GinParseToken example_constants example_GetClaimFromToken example_dataBase example_config
     (example_call ''POST'' [''token'' \<mapsto> ''T2'']) =
     \<lparr>Method = ''POST'', Header = [''token'' \<mapsto> ''T2''],
      Keys = [''platform'' \<mapsto> ''Android'', ''opUserID'' \<mapsto> ''U9''], index = 2,
      written = [], logged = [],
      handled = [[''platform'' \<mapsto> ''Android'', ''opUserID'' \<mapsto> ''U9'']]\<rparr> \<and>
   token_check example_constants example_GetClaimFromToken example_dataBase example_config
     (example_call ''POST'' [''token'' \<mapsto> ''T1'']) = None \<and>
   handled (GinParseToken example_constants example_GetClaimFromToken example_dataBase example_config
     (example_call ''POST'' [''token'' \<mapsto> ''T1''])) = []"
proof -
  have i: "index (example_call ''POST'' h) = 0" for h by (simp add: example_call_def)
  note t2 = GinParseToken_frame [OF ex_post [of "[''token'' \<mapsto> ''T2'']"] i,
      of example_constants example_GetClaimFromToken example_dataBase example_config]
  note t1 = GinParseToken_frame [OF ex_post [of "[''token'' \<mapsto> ''T1'']"] i,
      of example_constants example_GetClaimFromToken example_dataBase example_config]
  have h: "handled (example_call ''POST'' h) = []" for h by (simp add: example_call_def)
  show ?thesis
    using t2 [THEN conjunct2, THEN conjunct2] t1 [THEN conjunct1] ex_post [of "[''token'' \<mapsto> ''T2'']"] i h
    by (simp add: ex_token_check)
      (simp add: bound_keys_def example_constants_def example_call_def)
qed

section \<open>Gated routes and the request method\<close>

text \<open>
  Claim C4 does not hold for every method: a GET call that presents the token the store
  holds as kicked reaches the handler, with no identity bound and no error written.
\<close>

theorem gated_GET_call_counterexample:
  "Method kicked_GET_call \<noteq> MethodPost \<and>
   GetTokensWithoutError example_dataBase ''U9'' 2 = Inr [(''T1'', KickedToken example_constants), (''T2'', NormalToken example_constants)] \<and>
   token_check example_constants example_GetClaimFromToken example_dataBase example_config
     kicked_GET_call = None \<and>
   handled kicked_GET_call = [] \<and>
   handled (serve example_constants example_GetClaimFromToken example_dataBase example_config
     kicked_GET_call) = [Keys kicked_GET_call] \<and>
   Keys kicked_GET_call (OpUserID example_constants) = None \<and>
   written (serve example_constants example_GetClaimFromToken example_dataBase example_config
     kicked_GET_call) = []"
  by (simp add: kicked_GET_call_def ex_token_check ex_store)
     (simp add: example_call_def MethodPost_def serve_def GinParseToken_def run_handlers_def
      handler_def example_constants_def)

text \<open>
  Claim C4, for POST calls: on a POST call to a gated route the handler runs only when the
  token check against the store accepts, and it then reads the resolved identity in the
  context; a call with any other method passes the middleware unchanged and reaches the
  handler with no token check and nothing bound.
\<close>

theorem gated_call_checked_on_POST:
  "(Method c = MethodPost \<longrightarrow>
      (case token_check k G dataBase config c of
         Some claims \<Rightarrow>
           handled (serve k G dataBase config c) = handled c @ [bound_keys k claims (Keys c)]
       | None \<Rightarrow> handled (serve k G dataBase config c) = handled c)) \<and>
   (Method c \<noteq> MethodPost \<longrightarrow>
      GinParseToken k G dataBase config c = c \<and>
      handled (serve k G dataBase config c) = handled c @ [Keys c])"
proof (intro conjI impI)
  assume p: "Method c = MethodPost"
  have "Method (c\<lparr>index := 0\<rparr>) = MethodPost" "index (c\<lparr>index := 0\<rparr>) = 0"
    using p by simp_all
  from GinParseToken_POST [OF this, of k G dataBase config]
  show "case token_check k G dataBase config c of
         Some claims \<Rightarrow>
           handled (serve k G dataBase config c) = handled c @ [bound_keys k claims (Keys c)]
       | None \<Rightarrow> handled (serve k G dataBase config c) = handled c"
    by (auto simp: token_check_index serve_def run_handlers_def Abort_def GinError_def ZWarn_def
        abortIndex_def split: option.splits)
next
  assume "Method c \<noteq> MethodPost"
  then show "GinParseToken k G dataBase config c = c"
    by (rule GinParseToken_other_method)
next
  assume "Method c \<noteq> MethodPost"
  then show "handled (serve k G dataBase config c) = handled c @ [Keys c]"
    by (simp add: serve_def GinParseToken_other_method run_handlers_def handler_def)
qed

theorem gated_call_checked_on_POST_witness:
  "Method (example_call ''POST'' [''token'' \<mapsto> ''T2'']) = MethodPost \<and>
   handled (serve example_constants example_GetClaimFromToken example_dataBase example_config
     (example_call ''POST'' [''token'' \<mapsto> ''T2''])) =
     [[''platform'' \<mapsto> ''Android'', ''opUserID'' \<mapsto> ''U9'']] \<and>
   handled (serve example_constants example_GetClaimFromToken example_dataBase example_config
     (example_call ''POST'' [''token'' \<mapsto> ''T1''])) = [] \<and>
   Method (example_call ''GET'' [''token'' \<mapsto> ''T2'']) \<noteq> MethodPost \<and>
   handled (serve example_constants example_GetClaimFromToken example_dataBase example_config
     (example_call ''GET'' [''token'' \<mapsto> ''T2''])) = [Map.empty]"
proof -
  have g: "Method (example_call ''GET'' h) \<noteq> MethodPost" for h
    by (simp add: example_call_def MethodPost_def)
  note t2 = gated_call_checked_on_POST [of "example_call ''POST'' [''token'' \<mapsto> ''T2'']"
      example_constants example_GetClaimFromToken example_dataBase example_config]
  note t1 = gated_call_checked_on_POST [of "example_call ''POST'' [''token'' \<mapsto> ''T1'']"
      example_constants example_GetClaimFromToken example_dataBase example_config]
  note tg = gated_call_checked_on_POST [of "example_call ''GET'' [''token'' \<mapsto> ''T2'']"
      example_constants example_GetClaimFromToken example_dataBase example_config]
  have h: "handled (example_call m h) = []" "Keys (example_call m h) = Map.empty" for m h
    by (simp_all add: example_call_def)
  show ?thesis
    using t2 [THEN conjunct1] t1 [THEN conjunct1] tg [THEN conjunct2] g
      ex_post [of "[''token'' \<mapsto> ''T2'']"] ex_post [of "[''token'' \<mapsto> ''T1'']"]
    by (simp add: ex_token_check h)
      (simp add: bound_keys_def example_constants_def)
qed

end
